theory Spec2Isabelle
  imports Complex_Main "HOL-Library.Sublist"
begin

section \<open>JavaScript values used by the colour-range selector\<close>

text \<open>
  A JavaScript Number is an IEEE 754 binary64 value. The finite ones are carried by the
  rational they denote; every arithmetic result is rounded back to binary64 by
  \<open>to_double\<close>. The two zeros are identified: the component prints both as \<open>0\<close> and
  divides by the step count only, whose sign cannot be seen in a result. A string is a
  list of code units below 256.
\<close>

datatype number = NaN | PosInf | NegInf | Fin rat

datatype jsval = Undefined | Null | Num number | Str string

datatype error = TypeError | RangeError

subsection \<open>Rounding to binary64\<close>

definition ipow :: "rat \<Rightarrow> int \<Rightarrow> rat" where
  "ipow b e = (if 0 \<le> e then b ^ nat e else 1 / b ^ nat (- e))"

function ndigits :: "int \<Rightarrow> int \<Rightarrow> int" where
  "ndigits b n = (if n \<le> 0 \<or> b < 2 then 0 else 1 + ndigits b (n div b))"
  by pat_completeness auto
termination
proof (relation "measure (\<lambda>(b, n). nat n)")
  show "wf (measure (\<lambda>(b::int, n::int). nat n))" by simp
next
  fix b n :: int
  assume h: "\<not> (n \<le> 0 \<or> b < 2)"
  then have "n div b < n" by (simp add: int_div_less_self)
  with h show "((b, n div b), (b, n)) \<in> measure (\<lambda>(b, n). nat n)" by simp
qed

definition floor_log :: "int \<Rightarrow> rat \<Rightarrow> int" where
  \<comment> \<open>the integer \<open>e\<close> with \<open>b ^ e \<le> a < b ^ (e + 1)\<close>, for \<open>a > 0\<close> and \<open>b \<ge> 2\<close>\<close>
  "floor_log b a =
     (let e0 = ndigits b (fst (quotient_of a)) - ndigits b (snd (quotient_of a))
      in if ipow (of_int b) e0 \<le> a then e0 else e0 - 1)"

definition round_half_even :: "rat \<Rightarrow> int" where
  "round_half_even q =
     (let f = \<lfloor>q\<rfloor>; r = q - of_int f
      in if r < 1 / 2 then f else if 1 / 2 < r then f + 1
         else if even f then f else f + 1)"

definition to_double :: "rat \<Rightarrow> number" where
  \<comment> \<open>round to nearest, ties to even; 53 significant bits, exponents from -1022 to 1023;
      a value that rounds up to \<open>2 ^ 1024\<close> overflows\<close>
  "to_double q =
     (if q = 0 then Fin 0
      else
        let a = \<bar>q\<bar>;
            e = max (floor_log 2 a) (- 1022);
            ulp = ipow 2 (e - 52);
            m = round_half_even (a / ulp)
        in if 1024 \<le> e \<or> (e = 1023 \<and> 9007199254740992 \<le> m)
           then (if q < 0 then NegInf else PosInf)
           else Fin (if q < 0 then - (of_int m * ulp) else of_int m * ulp))"

definition isInteger :: "number \<Rightarrow> bool" where
  \<comment> \<open>\<open>Number.isInteger\<close>\<close>
  "isInteger x = (case x of Fin q \<Rightarrow> of_int \<lfloor>q\<rfloor> = q | _ \<Rightarrow> False)"

subsection \<open>Arithmetic on Numbers\<close>

definition js_neg :: "number \<Rightarrow> number" where
  "js_neg x = (case x of NaN \<Rightarrow> NaN | PosInf \<Rightarrow> NegInf | NegInf \<Rightarrow> PosInf | Fin q \<Rightarrow> Fin (- q))"

fun js_add :: "number \<Rightarrow> number \<Rightarrow> number" where
  "js_add NaN _ = NaN"
| "js_add _ NaN = NaN"
| "js_add PosInf NegInf = NaN"
| "js_add NegInf PosInf = NaN"
| "js_add PosInf _ = PosInf"
| "js_add NegInf _ = NegInf"
| "js_add _ PosInf = PosInf"
| "js_add _ NegInf = NegInf"
| "js_add (Fin a) (Fin b) = to_double (a + b)"

definition js_sub :: "number \<Rightarrow> number \<Rightarrow> number" where
  "js_sub x y = js_add x (js_neg y)"

definition signed_inf :: "bool \<Rightarrow> number" where
  "signed_inf negative = (if negative then NegInf else PosInf)"

fun js_mul :: "number \<Rightarrow> number \<Rightarrow> number" where
  "js_mul NaN _ = NaN"
| "js_mul _ NaN = NaN"
| "js_mul (Fin a) (Fin b) = to_double (a * b)"
| "js_mul (Fin a) y = (if a = 0 then NaN else signed_inf ((a < 0) \<noteq> (y = NegInf)))"
| "js_mul x (Fin b) = (if b = 0 then NaN else signed_inf ((x = NegInf) \<noteq> (b < 0)))"
| "js_mul x y = signed_inf ((x = NegInf) \<noteq> (y = NegInf))"

fun js_div :: "number \<Rightarrow> number \<Rightarrow> number" where
  "js_div NaN _ = NaN"
| "js_div _ NaN = NaN"
| "js_div (Fin a) (Fin b) =
     (if b = 0 then (if a = 0 then NaN else signed_inf (a < 0)) else to_double (a / b))"
| "js_div (Fin a) y = Fin 0"
| "js_div x (Fin b) = signed_inf ((x = NegInf) \<noteq> (b < 0))"
| "js_div x y = NaN"

subsection \<open>Numbers to strings\<close>

definition digit_char :: "int \<Rightarrow> char" where
  "digit_char d = ''0123456789'' ! nat (d mod 10)"

function dec :: "int \<Rightarrow> string" where
  \<comment> \<open>the decimal digits of a non-negative integer\<close>
  "dec n = (if n < 10 then [digit_char n] else dec (n div 10) @ [digit_char n])"
  by pat_completeness auto
termination
proof (relation "measure nat")
  show "wf (measure nat)" by simp
next
  fix n :: int
  assume "\<not> n < 10"
  then show "(n div 10, n) \<in> measure nat" by simp
qed

definition round_trips :: "rat \<Rightarrow> int \<Rightarrow> int \<times> int \<Rightarrow> bool" where
  \<comment> \<open>the \<open>k\<close>-digit decimal \<open>s * 10 ^ (n - k)\<close> denotes the binary64 value \<open>x\<close>\<close>
  "round_trips x k c = (to_double (of_int (fst c) * ipow 10 (snd c - k)) = Fin x)"

definition digits_at :: "rat \<Rightarrow> int \<Rightarrow> (int \<times> int) \<times> (int \<times> int)" where
  \<comment> \<open>the two \<open>k\<close>-digit decimals \<open>(s, n)\<close> next to \<open>x > 0\<close>, from below and from above\<close>
  "digits_at x k =
     (let n0 = floor_log 10 x + 1;
          sc = x / ipow 10 (n0 - k);
          lo = \<lfloor>sc\<rfloor>;
          hi = \<lceil>sc\<rceil>
      in if hi = 10 ^ nat k then ((lo, n0), (10 ^ nat (k - 1), n0 + 1))
         else ((lo, n0), (hi, n0)))"

definition closer :: "rat \<Rightarrow> int \<Rightarrow> int \<times> int \<Rightarrow> int \<times> int \<Rightarrow> int \<times> int" where
  \<comment> \<open>of two \<open>k\<close>-digit decimals the one closer to \<open>x\<close>; the even one on a tie\<close>
  "closer x k c1 c2 =
     (let d1 = \<bar>of_int (fst c1) * ipow 10 (snd c1 - k) - x\<bar>;
          d2 = \<bar>of_int (fst c2) * ipow 10 (snd c2 - k) - x\<bar>
      in if d1 < d2 then c1 else if d2 < d1 then c2
         else if even (fst c1) then c1 else c2)"

primrec shortest :: "rat \<Rightarrow> nat \<Rightarrow> int \<Rightarrow> int \<times> int" where
  \<comment> \<open>\<open>(s, n)\<close> of Number::toString: the least number of digits \<open>k\<close> that denotes \<open>x\<close>,
      tried from \<open>k\<close> upwards; 17 digits always do for a binary64 value\<close>
  "shortest x 0 k = (case digits_at x k of (c1, c2) \<Rightarrow> closer x k c1 c2)"
| "shortest x (Suc m) k =
     (case digits_at x k of
        (c1, c2) \<Rightarrow>
          if round_trips x k c1 \<and> round_trips x k c2 then closer x k c1 c2
          else if round_trips x k c1 then c1
          else if round_trips x k c2 then c2
          else shortest x m (k + 1))"

definition pos_toString :: "rat \<Rightarrow> string" where
  \<comment> \<open>Number::toString in radix 10, for a finite \<open>x > 0\<close>\<close>
  "pos_toString x =
     (let c = shortest x 16 1;
          ds = dec (fst c);
          k = int (length ds);
          n = snd c
      in if - 5 \<le> n \<and> n \<le> 21 then
           (if k \<le> n then ds @ replicate (nat (n - k)) CHR ''0''
            else if 0 < n then take (nat n) ds @ ''.'' @ drop (nat n) ds
            else ''0.'' @ replicate (nat (- n)) CHR ''0'' @ ds)
         else
           (let e = n - 1;
                es = (if e < 0 then ''-'' else ''+'') @ dec \<bar>e\<bar>
            in if k = 1 then ds @ ''e'' @ es
               else take 1 ds @ ''.'' @ drop 1 ds @ ''e'' @ es))"

definition number_toString :: "number \<Rightarrow> string" where
  "number_toString x =
     (case x of
        NaN \<Rightarrow> ''NaN''
      | PosInf \<Rightarrow> ''Infinity''
      | NegInf \<Rightarrow> ''-Infinity''
      | Fin q \<Rightarrow> if q = 0 then ''0'' else if q < 0 then ''-'' @ pos_toString (- q)
                 else pos_toString q)"

definition toFixed :: "number \<Rightarrow> nat \<Rightarrow> error + string" where
  \<comment> \<open>\<open>Number.prototype.toFixed\<close>: the nearest decimal with \<open>f\<close> fraction digits, the
      larger one on a tie\<close>
  "toFixed x f =
     (if 100 < f then Inl RangeError
      else Inr
        (case x of
           Fin q \<Rightarrow>
             (let a = \<bar>q\<bar> in
              if ipow 10 21 \<le> a then number_toString x
              else
                (let m = dec \<lfloor>a * 10 ^ f + 1 / 2\<rfloor>;
                     z = replicate (f + 1 - length m) CHR ''0'' @ m;
                     k = length z
                 in (if q < 0 then ''-'' else []) @
                    (if f = 0 then m else take (k - f) z @ ''.'' @ drop (k - f) z)))
         | _ \<Rightarrow> number_toString x))"

definition ToString :: "jsval \<Rightarrow> string" where
  \<comment> \<open>the conversion a template literal applies to a substitution\<close>
  "ToString v =
     (case v of
        Undefined \<Rightarrow> ''undefined''
      | Null \<Rightarrow> ''null''
      | Num x \<Rightarrow> number_toString x
      | Str s \<Rightarrow> s)"

subsection \<open>Strings to numbers\<close>

definition is_ws :: "char \<Rightarrow> bool" where
  \<comment> \<open>white space and line terminators among the code units below 256\<close>
  "is_ws c = (of_char c \<in> {9, 10, 11, 12, 13, 32, 160 :: nat})"

definition is_digit :: "char \<Rightarrow> bool" where
  "is_digit c = (c \<in> set ''0123456789'')"

definition radix_digit :: "int \<Rightarrow> char \<Rightarrow> bool" where
  "radix_digit R c = (is_digit c \<or> (R = 16 \<and> c \<in> set ''abcdefABCDEF''))"

definition digit_val :: "char \<Rightarrow> int" where
  "digit_val c =
     (if is_digit c then of_char c - 48
      else if c \<in> set ''abcdef'' then of_char c - 87
      else of_char c - 55)"

definition digits_val :: "int \<Rightarrow> string \<Rightarrow> int" where
  "digits_val R ds = foldl (\<lambda>acc c. acc * R + digit_val c) 0 ds"

definition parseInt :: "string \<Rightarrow> number" where
  \<comment> \<open>\<open>parseInt(string)\<close> with no radix argument\<close>
  "parseInt str =
     (let s0 = dropWhile is_ws str;
          neg = (case s0 of [] \<Rightarrow> False | c # _ \<Rightarrow> c = CHR ''-'');
          s1 = (case s0 of [] \<Rightarrow> []
                | c # r \<Rightarrow> if c = CHR ''+'' \<or> c = CHR ''-'' then r else s0);
          hex = (prefix ''0x'' s1 \<or> prefix ''0X'' s1);
          R = (if hex then 16 else 10);
          s2 = (if hex then drop 2 s1 else s1);
          z = takeWhile (radix_digit R) s2
      in if z = [] then NaN
         else to_double (of_int ((if neg then - 1 else 1) * digits_val R z)))"

definition exponent_part :: "string \<Rightarrow> int" where
  \<comment> \<open>the value of a leading ExponentPart (\<open>e\<close>, an optional sign, digits); 0 when there
      is none\<close>
  "exponent_part s =
     (case s of
        [] \<Rightarrow> 0
      | c # r \<Rightarrow>
          if c = CHR ''e'' \<or> c = CHR ''E'' then
            (let neg = (case r of [] \<Rightarrow> False | d # _ \<Rightarrow> d = CHR ''-'');
                 r1 = (case r of [] \<Rightarrow> []
                       | d # t \<Rightarrow> if d = CHR ''+'' \<or> d = CHR ''-'' then t else r);
                 ds = takeWhile is_digit r1
             in if ds = [] then 0
                else (if neg then - 1 else 1) * digits_val 10 ds)
          else 0)"

definition parseFloat :: "string \<Rightarrow> number" where
  \<comment> \<open>\<open>parseFloat(string)\<close>: the longest prefix that is a StrDecimalLiteral\<close>
  "parseFloat str =
     (let s0 = dropWhile is_ws str;
          neg = (case s0 of [] \<Rightarrow> False | c # _ \<Rightarrow> c = CHR ''-'');
          s1 = (case s0 of [] \<Rightarrow> []
                | c # r \<Rightarrow> if c = CHR ''+'' \<or> c = CHR ''-'' then r else s0);
          ip = takeWhile is_digit s1;
          r1 = dropWhile is_digit s1;
          dot = (case r1 of [] \<Rightarrow> False | c # _ \<Rightarrow> c = CHR ''.'');
          fp = (if dot then takeWhile is_digit (tl r1) else []);
          r2 = (if dot then dropWhile is_digit (tl r1) else r1)
      in if prefix ''Infinity'' s1 then signed_inf neg
         else if ip = [] \<and> fp = [] then NaN
         else to_double
           ((if neg then - 1 else 1) * of_int (digits_val 10 (ip @ fp))
              * ipow 10 (exponent_part r2 - int (length fp))))"

subsection \<open>Splitting a string\<close>

function split_from :: "string \<Rightarrow> string \<Rightarrow> string \<Rightarrow> string list" where
  \<comment> \<open>left to right, at each leftmost occurrence of a non-empty separator; \<open>cur\<close> is the
      piece read so far\<close>
  "split_from sep cur [] = [cur]"
| "split_from sep cur (c # cs) =
     (if sep \<noteq> [] \<and> prefix sep (c # cs)
      then cur # split_from sep [] (drop (length sep) (c # cs))
      else split_from sep (cur @ [c]) cs)"
  by pat_completeness auto
termination
  by (relation "measure (\<lambda>(sep, cur, s). length s)") auto

definition js_split :: "string \<Rightarrow> string \<Rightarrow> string list" where
  \<comment> \<open>\<open>s.split(sep)\<close>\<close>
  "js_split sep s = (if sep = [] then map (\<lambda>c. [c]) s else split_from sep [] s)"

section \<open>The colour-range selector\<close>

text \<open>
  A colour-map entry is the array \<open>[label, colour]\<close>, or \<open>null\<close>/\<open>undefined\<close>
  (\<open>None\<close>). A colour range carries its colours and, for the custom palette, the
  colour map derived from the thresholds. The field \<open>type\<close> of a colour range is
  \<open>ctype\<close> here and the field \<open>type\<close> of the configuration is \<open>cfg_type\<close>. The props
  and the state hold what the threshold logic reads: the palette configuration, the
  domain, and the thresholds with the custom-domain flag.
\<close>

type_synonym entry = "jsval list option"

record ColorRange =
  name :: string
  ctype :: "string option"
  colors :: "string list"
  colorMap :: "entry list option"

record ColorRangeConfig =
  cfg_type :: string
  steps :: number
  reversed :: bool
  custom :: bool

record ColorUI =
  customPalette :: ColorRange
  showSketcher :: bool
  colorRangeConfig :: ColorRangeConfig

record Props =
  colorPaletteUI :: ColorUI
  colorDomain :: "jsval list option"

record Component =
  props :: Props
  isCustomDomain :: bool
  colorThresholds :: "jsval list"

subsection \<open>Arrays\<close>

definition element :: "jsval list \<Rightarrow> nat \<Rightarrow> jsval" where
  \<comment> \<open>\<open>xs[i]\<close>: \<open>undefined\<close> past the end\<close>
  "element xs i = (if i < length xs then xs ! i else Undefined)"

definition assign_at :: "jsval list \<Rightarrow> nat \<Rightarrow> jsval \<Rightarrow> jsval list" where
  \<comment> \<open>\<open>xs[i] = v\<close>: an index past the end extends the array; the holes read \<open>undefined\<close>\<close>
  "assign_at xs i v =
     (if i < length xs then xs[i := v]
      else xs @ replicate (i - length xs) Undefined @ [v])"

definition arrayLength :: "number \<Rightarrow> error + nat" where
  \<comment> \<open>\<open>new Array(length)\<close>: a RangeError unless \<open>length\<close> is an integer from 0 to
      \<open>2^32 - 1\<close>\<close>
  "arrayLength x =
     (case x of
        Fin q \<Rightarrow>
          if of_int \<lfloor>q\<rfloor> = q \<and> 0 \<le> q \<and> q < 4294967296 then Inr (nat \<lfloor>q\<rfloor>)
          else Inl RangeError
      | _ \<Rightarrow> Inl RangeError)"

primrec collect :: "(error + 'a) list \<Rightarrow> error + 'a list" where
  \<comment> \<open>the results of a \<open>map\<close> whose callback may raise: the first error stops it\<close>
  "collect [] = Inr []"
| "collect (r # rs) =
     (case r of
        Inl e \<Rightarrow> Inl e
      | Inr v \<Rightarrow> (case collect rs of Inl e \<Rightarrow> Inl e | Inr vs \<Rightarrow> Inr (v # vs)))"

subsection \<open>Thresholds from an existing colour map\<close>

definition getEditableThreshold :: "entry \<Rightarrow> jsval" where
  "getEditableThreshold k =
     (case k of
        None \<Rightarrow> Null
      | Some xs \<Rightarrow>
          (case xs of
             [] \<Rightarrow> Null
           | k0 # _ \<Rightarrow>
               (case k0 of
                  Str label \<Rightarrow> Str (last (js_split '' to '' label))
                | _ \<Rightarrow> Null)))"

definition fromColorMap :: "Props \<Rightarrow> error + jsval list" where
  "fromColorMap p =
     (case colorMap (customPalette (colorPaletteUI p)) of
        None \<Rightarrow> Inl TypeError
      | Some cm \<Rightarrow>
          (let thresholds = map getEditableThreshold cm
           in Inr (butlast thresholds)))"

subsection \<open>Thresholds from the domain\<close>

definition domainBound :: "jsval list \<Rightarrow> nat \<Rightarrow> number option" where
  \<comment> \<open>a bound of the domain: a string is parsed by \<open>parseInt\<close>, a number is taken as it
      is; \<open>None\<close> is a bound that is no number (a missing element)\<close>
  "domainBound d i =
     (case element d i of
        Str s \<Rightarrow> Some (parseInt s)
      | Num x \<Rightarrow> Some x
      | _ \<Rightarrow> None)"

definition getDecimalPlaces :: "number \<Rightarrow> error + nat" where
  \<comment> \<open>reading \<open>length\<close> of the missing second piece raises a TypeError\<close>
  "getDecimalPlaces num =
     (if isInteger num then Inr 0
      else
        (case js_split ''.'' (number_toString num) of
           _ # fraction # _ \<Rightarrow> Inr (length fraction)
         | _ \<Rightarrow> Inl TypeError))"

definition roundDown :: "nat \<Rightarrow> number \<Rightarrow> error + number" where
  "roundDown decimals num =
     (if decimals \<noteq> 0 then
        (case toFixed num decimals of Inl e \<Rightarrow> Inl e | Inr s \<Rightarrow> Inr (parseFloat s))
      else
        (case toFixed num 0 of Inl e \<Rightarrow> Inl e | Inr s \<Rightarrow> Inr (parseInt s)))"

definition thresholdAt :: "nat \<Rightarrow> number \<Rightarrow> number \<Rightarrow> number \<Rightarrow> nat \<Rightarrow> nat \<Rightarrow> error + jsval" where
  \<comment> \<open>the callback of the final \<open>map\<close>, at index \<open>i\<close> of \<open>n\<close>\<close>
  "thresholdAt decimals min' max' increment n i =
     (if int i = int n - 1 then Inr (Num max')
      else
        (case roundDown decimals (js_add min' (js_mul increment (Fin (of_nat (i + 1))))) of
           Inl e \<Rightarrow> Inl e
         | Inr v \<Rightarrow> Inr (Num v)))"

definition init :: "Props \<Rightarrow> error + jsval list" where
  "init p =
     (case colorDomain p of
        None \<Rightarrow> Inr []
      | Some d \<Rightarrow>
          (let length' = steps (colorRangeConfig (colorPaletteUI p)) in
           case domainBound d 0 of
             None \<Rightarrow> Inl TypeError
           | Some min' \<Rightarrow>
               (case domainBound d 1 of
                  None \<Rightarrow> Inl TypeError
                | Some max' \<Rightarrow>
                    (case getDecimalPlaces min' of
                       Inl e \<Rightarrow> Inl e
                     | Inr dmin \<Rightarrow>
                         (case getDecimalPlaces max' of
                            Inl e \<Rightarrow> Inl e
                          | Inr dmax \<Rightarrow>
                              (let decimals = max dmin dmax in
                               case roundDown decimals (js_div (js_sub max' min') length') of
                                 Inl e \<Rightarrow> Inl e
                               | Inr increment \<Rightarrow>
                                   (case arrayLength length' of
                                      Inl e \<Rightarrow> Inl e
                                    | Inr n \<Rightarrow>
                                        collect
                                          (map (thresholdAt decimals min' max' increment n)
                                             [0..<n]))))))))"

definition initialState :: "Props \<Rightarrow> error + Component" where
  \<comment> \<open>the state initialiser of the class\<close>
  "initialState p =
     (let present = (colorMap (customPalette (colorPaletteUI p)) \<noteq> None) in
      case (if present then fromColorMap p else init p) of
        Inl e \<Rightarrow> Inl e
      | Inr ts \<Rightarrow> Inr \<lparr>props = p, isCustomDomain = present, colorThresholds = ts\<rparr>)"

subsection \<open>The palette filter\<close>

definition strict_eq :: "number \<Rightarrow> number \<Rightarrow> bool" where
  \<comment> \<open>\<open>===\<close> on Numbers\<close>
  "strict_eq x y = (x \<noteq> NaN \<and> x = y)"

definition filteredColorRange :: "ColorRange list \<Rightarrow> Props \<Rightarrow> ColorRange list" where
  \<comment> \<open>\<open>COLOR_RANGES\<close>, the imported catalogue, is a parameter; \<open>Number(steps)\<close> is
      \<open>steps\<close>, a Number already; the selector caches the result of this function\<close>
  "filteredColorRange COLOR_RANGES p =
     (let type = cfg_type (colorRangeConfig (colorPaletteUI p));
          steps' = steps (colorRangeConfig (colorPaletteUI p))
      in filter
           (\<lambda>colorRange.
              let isType = (type = ''all'' \<or> Some type = ctype colorRange);
                  isStep = strict_eq steps' (Fin (of_nat (length (colors colorRange))))
              in isType \<and> isStep)
           COLOR_RANGES)"

subsection \<open>Editing a threshold\<close>

definition rangeLabel :: "jsval list \<Rightarrow> jsval list \<Rightarrow> nat \<Rightarrow> nat \<Rightarrow> string" where
  \<comment> \<open>the label of colour \<open>i\<close> of \<open>n\<close>, from the domain and the thresholds\<close>
  "rangeLabel d thresholds n i =
     (let minima = element d 0;
          maxima = (if d = [] then Undefined else element d (length d - 1));
          minOfRange = (if i = 0 then minima else element thresholds (i - 1));
          maxOfRange = (if int i = int n - 1 then maxima else element thresholds i)
      in ToString minOfRange @ '' to '' @ ToString maxOfRange)"

definition setColorThresholds :: "nat \<Rightarrow> jsval \<Rightarrow> Component \<Rightarrow> Component \<times> ColorUI list" where
  \<comment> \<open>the component after the call, and the arguments of the calls of
      \<open>props.setColorPaletteUI\<close> it made; the colour map is assigned in place, so the
      props show it too\<close>
  "setColorThresholds index v c =
     (case colorDomain (props c) of
        None \<Rightarrow> (c, [])
      | Some d \<Rightarrow>
          (let thresholds = assign_at (colorThresholds c) index v;
               ui = colorPaletteUI (props c);
               cs = colors (customPalette ui);
               cm = map (\<lambda>i. Some [Str (rangeLabel d thresholds (length cs) i), Str (cs ! i)])
                      [0..<length cs];
               ui' = ui\<lparr>customPalette := (customPalette ui)\<lparr>colorMap := Some cm\<rparr>\<rparr>
           in (c\<lparr>props := (props c)\<lparr>colorPaletteUI := ui'\<rparr>, colorThresholds := thresholds\<rparr>,
               [ui'])))"

subsection \<open>The edit-mode initialiser as the specification words it\<close>

definition fromColorMap_spec :: "entry list \<Rightarrow> jsval list" where
  \<comment> \<open>an entry whose label is a non-empty string gives the token after the separator,
      every other entry gives null; the last element is dropped\<close>
  "fromColorMap_spec cm =
     butlast
       (map (\<lambda>k. case k of
                 Some (Str label # _) \<Rightarrow>
                   if label \<noteq> [] then Str (last (js_split '' to '' label)) else Null
               | _ \<Rightarrow> Null)
          cm)"

subsection \<open>Example inputs\<close>

definition paletteProps ::
  "string list \<Rightarrow> entry list option \<Rightarrow> jsval list option \<Rightarrow> number \<Rightarrow> Props" where
  \<comment> \<open>props with the given custom colours, colour map, domain and step count\<close>
  "paletteProps cs cm d n =
     \<lparr>colorPaletteUI =
        \<lparr>customPalette = \<lparr>name = ''Custom'', ctype = Some ''custom'', colors = cs, colorMap = cm\<rparr>,
         showSketcher = False,
         colorRangeConfig = \<lparr>cfg_type = ''all'', steps = n, reversed = False, custom = True\<rparr>\<rparr>,
      colorDomain = d\<rparr>"

definition paletteComponent :: "Props \<Rightarrow> jsval list \<Rightarrow> Component" where
  "paletteComponent p ts = \<lparr>props = p, isCustomDomain = False, colorThresholds = ts\<rparr>"


section \<open>Arrays and strings\<close>

lemma element_assign_at_same: "element (assign_at xs i v) i = v"
  by (simp add: element_def assign_at_def nth_append)

lemma element_assign_at_other: "j \<noteq> i \<Longrightarrow> element (assign_at xs i v) j = element xs j"
  by (auto simp: element_def assign_at_def nth_append)

lemma element_assign_at:
  "element (assign_at xs i v) j = (if j = i then v else element xs j)"
  by (simp add: element_assign_at_same element_assign_at_other)

lemma last_index: "(int j = int n - 1) = (Suc j = n)"
  by auto

lemma maxima_element:
  "(if d = [] then Undefined else element d (length d - 1)) = element d (length d - 1)"
  by (simp add: element_def)

lemma rangeLabel_assign_at:
  "rangeLabel d (assign_at ts i v) n j =
     ToString (if j = 0 then element d 0
               else if j - 1 = i then v else element ts (j - 1))
     @ '' to '' @
     ToString (if Suc j = n then element d (length d - 1)
               else if j = i then v else element ts j)"
  unfolding rangeLabel_def Let_def element_assign_at last_index maxima_element
  by (rule refl)

lemma setColorThresholds_present:
  "colorDomain (props c) = Some d \<Longrightarrow>
   setColorThresholds i v c =
     (let thresholds = assign_at (colorThresholds c) i v;
          ui = colorPaletteUI (props c);
          cs = colors (customPalette ui);
          cm = map (\<lambda>j. Some [Str (rangeLabel d thresholds (length cs) j), Str (cs ! j)])
                 [0..<length cs];
          ui' = ui\<lparr>customPalette := (customPalette ui)\<lparr>colorMap := Some cm\<rparr>\<rparr>
      in (c\<lparr>props := (props c)\<lparr>colorPaletteUI := ui'\<rparr>, colorThresholds := thresholds\<rparr>,
          [ui']))"
  by (simp add: setColorThresholds_def)

lemma length_assign_at: "length (assign_at xs i v) = max (length xs) (Suc i)"
  by (simp add: assign_at_def)

lemma split_from_no_space:
  "CHR '' '' \<notin> set s \<Longrightarrow> split_from '' to '' cur s = [cur @ s]"
  by (induction s arbitrary: cur) auto

lemma split_from_bounds:
  "CHR '' '' \<notin> set lo \<Longrightarrow> CHR '' '' \<notin> set hi \<Longrightarrow>
   split_from '' to '' cur (lo @ CHR '' '' # CHR ''t'' # CHR ''o'' # CHR '' '' # hi)
     = [cur @ lo, hi]"
proof (induction lo arbitrary: cur)
  case Nil
  then show ?case by (simp add: split_from_no_space)
next
  case (Cons c lo)
  then show ?case by auto
qed

lemma upper_bound_token:
  "CHR '' '' \<notin> set lo \<Longrightarrow> CHR '' '' \<notin> set hi \<Longrightarrow>
   last (js_split '' to '' (lo @ '' to '' @ hi)) = hi"
  by (simp add: js_split_def split_from_bounds)

lemma whole_label_token:
  "CHR '' '' \<notin> set s \<Longrightarrow> last (js_split '' to '' s) = s"
  by (simp add: js_split_def split_from_no_space)

lemma getEditableThreshold_cases:
  "getEditableThreshold k =
     (case k of Some (Str label # _) \<Rightarrow> Str (last (js_split '' to '' label)) | _ \<Rightarrow> Null)"
  by (simp add: getEditableThreshold_def split: option.splits list.splits jsval.splits)

lemma toString_0: "number_toString (Fin 0) = ''0''"
  by (simp add: number_toString_def)

lemma toString_10: "number_toString (Fin 10) = ''10''"
  by code_simp

lemma label_tokens:
  "last (js_split '' to '' ''0 to 2'') = ''2''"
  "last (js_split '' to '' ''2 to 4'') = ''4''"
  "last (js_split '' to '' ''4 to 6'') = ''6''"
  "last (js_split '' to '' ''6 to 8'') = ''8''"
  "last (js_split '' to '' ''8 to 10'') = ''10''"
  by (simp_all add: js_split_def)

lemma ToString_Num: "ToString (Num x) = number_toString x"
  by (simp add: ToString_def)

section \<open>The palette filter\<close>

text \<open>
  C8. For every catalogue, type and step count the filter returns exactly the entries whose
  type is the selected one (or any, when the selection is \<open>all\<close>) and whose number of
  colours is the step count, in the order of the catalogue.
\<close>

theorem filteredColorRange_exact:
  "filteredColorRange C p =
     filter (\<lambda>entry. (cfg_type (colorRangeConfig (colorPaletteUI p)) = ''all''
                        \<or> ctype entry = Some (cfg_type (colorRangeConfig (colorPaletteUI p))))
                     \<and> Fin (of_nat (length (colors entry)))
                         = steps (colorRangeConfig (colorPaletteUI p))) C
   \<and> subseq (filteredColorRange C p) C"
  by (auto simp: filteredColorRange_def strict_eq_def Let_def intro!: filter_cong)

section \<open>Thresholds from an existing colour map\<close>

text \<open>
  C5, as the specification states it, fails: an entry whose label is the empty string is
  mapped to the empty string, not to null, because the guard tests the length of the entry
  and not the length of its label.
\<close>

theorem fromColorMap_empty_label_counterexample:
  "fromColorMap
     (paletteProps [''#aaa'', ''#bbb'']
        (Some [Some [Str '''', Str ''#aaa''], Some [Str ''5 to 10'', Str ''#bbb'']])
        None (Fin 2))
     = Inr [Str '''']
   \<and> fromColorMap_spec [Some [Str '''', Str ''#aaa''], Some [Str ''5 to 10'', Str ''#bbb'']]
     = [Null]
   \<and> fromColorMap
     (paletteProps [''#aaa'', ''#bbb'']
        (Some [Some [Str '''', Str ''#aaa''], Some [Str ''5 to 10'', Str ''#bbb'']])
        None (Fin 2))
     \<noteq> Inr (fromColorMap_spec
               [Some [Str '''', Str ''#aaa''], Some [Str ''5 to 10'', Str ''#bbb'']])"
  by code_simp

text \<open>
  C5, amended. For every colour map, \<open>fromColorMap\<close> returns one element fewer than the map
  has entries (none for the empty map); the element at each remaining position is the last
  piece of the entry's label split at \<open>" to "\<close> when the entry is a non-empty array whose
  first element is a string, the empty string included, and null otherwise. For a label
  \<open>lo to hi\<close> whose bounds contain no space that piece is \<open>hi\<close>, and for a label without
  a space it is the whole label.
\<close>

theorem fromColorMap_entries:
  assumes "colorMap (customPalette (colorPaletteUI p)) = Some cm"
  shows "\<exists>ts. fromColorMap p = Inr ts \<and> length ts = length cm - 1
     \<and> (\<forall>i < length ts.
          ts ! i = (case cm ! i of
                      Some (Str label # _) \<Rightarrow> Str (last (js_split '' to '' label))
                    | _ \<Rightarrow> Null))
     \<and> (\<forall>lo hi. CHR '' '' \<notin> set lo \<and> CHR '' '' \<notin> set hi \<longrightarrow>
          last (js_split '' to '' (lo @ '' to '' @ hi)) = hi
          \<and> last (js_split '' to '' hi) = hi)"
proof -
  have tokens: "\<forall>lo hi. CHR '' '' \<notin> set lo \<and> CHR '' '' \<notin> set hi \<longrightarrow>
      last (js_split '' to '' (lo @ '' to '' @ hi)) = hi \<and> last (js_split '' to '' hi) = hi"
    using upper_bound_token whole_label_token by blast
  have "fromColorMap p = Inr (butlast (map getEditableThreshold cm))"
    using assms by (simp add: fromColorMap_def)
  moreover have "length (butlast (map getEditableThreshold cm)) = length cm - 1"
    by simp
  moreover have "\<forall>i < length (butlast (map getEditableThreshold cm)).
      butlast (map getEditableThreshold cm) ! i =
        (case cm ! i of
           Some (Str label # _) \<Rightarrow> Str (last (js_split '' to '' label))
         | _ \<Rightarrow> Null)"
    by (simp add: nth_butlast getEditableThreshold_cases)
  ultimately show ?thesis using tokens by blast
qed

theorem fromColorMap_entries_witness:
  "\<exists>ts. fromColorMap
           (paletteProps [''#aaa'', ''#bbb'']
              (Some [Some [Str '''', Str ''#aaa''], Some [Str ''5 to 10'', Str ''#bbb'']])
              None (Fin 2)) = Inr ts
     \<and> length ts = 1 \<and> ts ! 0 = Str ''''"
proof -
  let ?cm = "[Some [Str '''', Str ''#aaa''], Some [Str ''5 to 10'', Str ''#bbb'']]"
  let ?p = "paletteProps [''#aaa'', ''#bbb''] (Some ?cm) None (Fin 2)"
  have h: "colorMap (customPalette (colorPaletteUI ?p)) = Some ?cm"
    by (simp add: paletteProps_def)
  from fromColorMap_entries [OF h]
  obtain ts where ts: "fromColorMap ?p = Inr ts" "length ts = length ?cm - 1"
    "\<forall>i < length ts. ts ! i = (case ?cm ! i of
        Some (Str label # _) \<Rightarrow> Str (last (js_split '' to '' label)) | _ \<Rightarrow> Null)"
    by blast
  have "last (js_split '' to '' '''') = ''''"
    by (simp add: js_split_def)
  with ts show ?thesis by simp
qed

section \<open>Editing a threshold\<close>

text \<open>
  C6. Without a domain, \<open>setColorThresholds\<close> does nothing: for every index and value the
  component (its thresholds, and the colour map in its props) is returned as it was, the
  store is not called and nothing is raised.
\<close>

theorem setColorThresholds_no_domain:
  "colorDomain (props c) = None \<Longrightarrow> setColorThresholds i v c = (c, [])"
  by (simp add: setColorThresholds_def)

theorem setColorThresholds_no_domain_witness:
  "setColorThresholds 1 (Str ''7'')
     (paletteComponent (paletteProps [''#aaa'', ''#bbb''] None None (Fin 2)) [Num (Fin 5)])
   = (paletteComponent (paletteProps [''#aaa'', ''#bbb''] None None (Fin 2)) [Num (Fin 5)], [])"
proof -
  have "colorDomain (props (paletteComponent (paletteProps [''#aaa'', ''#bbb''] None None (Fin 2))
      [Num (Fin 5)])) = None"
    by (simp add: paletteComponent_def paletteProps_def)
  then show ?thesis by (rule setColorThresholds_no_domain)
qed

text \<open>
  C7. With a domain, for every threshold array and every edit, the colour map that
  \<open>setColorThresholds\<close> stores (and sends to the store) has one entry per colour, each
  \<open>[label, colour]\<close> with a label \<open>lower to upper\<close>; the lower bound of the first entry is
  the first element of the domain and the upper bound of the last entry is its last element.
\<close>

theorem setColorThresholds_colorMap:
  assumes "colorDomain (props c) = Some d"
  shows "\<exists>cm. colorMap (customPalette (colorPaletteUI (props (fst (setColorThresholds i v c)))))
         = Some cm
     \<and> snd (setColorThresholds i v c) = [colorPaletteUI (props (fst (setColorThresholds i v c)))]
     \<and> length cm = length (colors (customPalette (colorPaletteUI (props c))))
     \<and> (\<forall>j < length cm. \<exists>lo hi.
           cm ! j = Some [Str (ToString lo @ '' to '' @ ToString hi),
                          Str (colors (customPalette (colorPaletteUI (props c))) ! j)]
           \<and> (j = 0 \<longrightarrow> lo = element d 0)
           \<and> (Suc j = length cm \<longrightarrow> hi = element d (length d - 1)))"
  using assms
  by (auto simp: setColorThresholds_def Let_def rangeLabel_def element_def)

theorem setColorThresholds_colorMap_witness:
  "\<exists>cm. colorMap (customPalette (colorPaletteUI (props (fst (setColorThresholds 0 (Str ''6'')
        (paletteComponent (paletteProps [''#aaa'', ''#bbb''] None (Some [Str ''a'', Str ''b''])
           (Fin 2)) [Str ''4''])))))) = Some cm
     \<and> length cm = 2"
proof -
  let ?c = "paletteComponent (paletteProps [''#aaa'', ''#bbb''] None (Some [Str ''a'', Str ''b''])
     (Fin 2)) [Str ''4'']"
  have h: "colorDomain (props ?c) = Some [Str ''a'', Str ''b'']"
    by (simp add: paletteComponent_def paletteProps_def)
  have n: "length (colors (customPalette (colorPaletteUI (props ?c)))) = 2"
    by (simp add: paletteComponent_def paletteProps_def)
  from setColorThresholds_colorMap [OF h, of 0 "Str ''6''"] n show ?thesis
    by metis
qed

text \<open>
  C9. With a domain, for every index \<open>i\<close> and every value \<open>v\<close> (no parsing, clamping or
  validation), position \<open>i\<close> of the new thresholds reads \<open>v\<close> and every other position
  reads what it read before; the colour map is rebuilt from the domain and these
  thresholds, so the labels next to position \<open>i\<close> carry the text of \<open>v\<close>, which for a
  string is the string itself.
\<close>

theorem setColorThresholds_raw_value:
  assumes "colorDomain (props c) = Some d"
  shows "element (colorThresholds (fst (setColorThresholds i v c))) i = v
     \<and> (\<forall>j. j \<noteq> i \<longrightarrow>
          element (colorThresholds (fst (setColorThresholds i v c))) j
            = element (colorThresholds c) j)
     \<and> colorMap (customPalette (colorPaletteUI (props (fst (setColorThresholds i v c))))) =
         Some (map (\<lambda>j. Some
                 [Str (ToString (if j = 0 then element d 0
                                 else if j - 1 = i then v
                                 else element (colorThresholds c) (j - 1))
                       @ '' to '' @
                       ToString (if Suc j = length (colors (customPalette (colorPaletteUI (props c))))
                                 then element d (length d - 1)
                                 else if j = i then v else element (colorThresholds c) j)),
                  Str (colors (customPalette (colorPaletteUI (props c))) ! j)])
               [0..<length (colors (customPalette (colorPaletteUI (props c))))])
     \<and> (\<forall>s. ToString (Str s) = s)"
proof -
  have ts: "colorThresholds (fst (setColorThresholds i v c)) = assign_at (colorThresholds c) i v"
    by (simp add: setColorThresholds_present [OF assms] Let_def)
  have cm: "colorMap (customPalette (colorPaletteUI (props (fst (setColorThresholds i v c))))) =
      Some (map (\<lambda>j. Some [Str (rangeLabel d (assign_at (colorThresholds c) i v)
                                 (length (colors (customPalette (colorPaletteUI (props c))))) j),
                            Str (colors (customPalette (colorPaletteUI (props c))) ! j)])
              [0..<length (colors (customPalette (colorPaletteUI (props c))))])"
    by (simp add: setColorThresholds_present [OF assms] Let_def)
  have str: "\<forall>s. ToString (Str s) = s"
    by (simp add: ToString_def)
  show ?thesis
    unfolding ts cm rangeLabel_assign_at
    using str by (simp add: element_assign_at)
qed

theorem setColorThresholds_raw_value_witness:
  "colorThresholds (fst (setColorThresholds 0 (Str ''six'')
      (paletteComponent (paletteProps [''#aaa'', ''#bbb''] None (Some [Str ''a'', Str ''b''])
         (Fin 2)) [Str ''4'', Str ''5'']))) = [Str ''six'', Str ''5'']
   \<and> colorMap (customPalette (colorPaletteUI (props (fst (setColorThresholds 0 (Str ''six'')
      (paletteComponent (paletteProps [''#aaa'', ''#bbb''] None (Some [Str ''a'', Str ''b''])
         (Fin 2)) [Str ''4'', Str ''5'']))))))
     = Some [Some [Str ''a to six'', Str ''#aaa''], Some [Str ''six to b'', Str ''#bbb'']]"
proof -
  let ?c = "paletteComponent (paletteProps [''#aaa'', ''#bbb''] None (Some [Str ''a'', Str ''b''])
     (Fin 2)) [Str ''4'', Str ''5'']"
  have h: "colorDomain (props ?c) = Some [Str ''a'', Str ''b'']"
    by (simp add: paletteComponent_def paletteProps_def)
  have ts: "colorThresholds (fst (setColorThresholds 0 (Str ''six'') ?c)) = [Str ''six'', Str ''5'']"
    unfolding setColorThresholds_present [OF h]
    by (simp add: Let_def assign_at_def paletteComponent_def)
  from setColorThresholds_raw_value [OF h, of 0 "Str ''six''"]
  have "colorMap (customPalette (colorPaletteUI (props (fst (setColorThresholds 0 (Str ''six'') ?c)))))
      = Some [Some [Str ''a to six'', Str ''#aaa''], Some [Str ''six to b'', Str ''#bbb'']]"
    by (simp add: element_def ToString_def paletteComponent_def paletteProps_def)
  with ts show ?thesis by simp
qed

text \<open>
  C4. With the domain \<open>[0, 10]\<close>, five colours and an edit that leaves the thresholds
  reading 2, 4, 6, 8, the rebuilt colour map is
  \<open>[["0 to 2", c0], ["2 to 4", c1], ["4 to 6", c2], ["6 to 8", c3], ["8 to 10", c4]]\<close>, and
  \<open>fromColorMap\<close> on the props that carry this map returns the strings
  \<open>"2", "4", "6", "8"\<close>: the last entry is dropped.
\<close>

theorem colorMap_round_trip:
  assumes dom: "colorDomain (props c) = Some [Num (Fin 0), Num (Fin 10)]"
    and cols: "colors (customPalette (colorPaletteUI (props c))) = [c0, c1, c2, c3, c4]"
    and ths: "map ToString (assign_at (colorThresholds c) i v) = [''2'', ''4'', ''6'', ''8'']"
  shows "colorMap (customPalette (colorPaletteUI (props (fst (setColorThresholds i v c))))) =
       Some [Some [Str ''0 to 2'', Str c0], Some [Str ''2 to 4'', Str c1],
             Some [Str ''4 to 6'', Str c2], Some [Str ''6 to 8'', Str c3],
             Some [Str ''8 to 10'', Str c4]]
     \<and> fromColorMap (props (fst (setColorThresholds i v c)))
         = Inr [Str ''2'', Str ''4'', Str ''6'', Str ''8'']"
proof -
  obtain t0 t1 t2 t3 where ts: "assign_at (colorThresholds c) i v = [t0, t1, t2, t3]"
    and s: "ToString t0 = ''2''" "ToString t1 = ''4''" "ToString t2 = ''6''" "ToString t3 = ''8''"
    using ths by (auto simp: map_eq_Cons_conv)
  have cm: "colorMap (customPalette (colorPaletteUI (props (fst (setColorThresholds i v c))))) =
       Some [Some [Str ''0 to 2'', Str c0], Some [Str ''2 to 4'', Str c1],
             Some [Str ''4 to 6'', Str c2], Some [Str ''6 to 8'', Str c3],
             Some [Str ''8 to 10'', Str c4]]"
    unfolding setColorThresholds_present [OF dom] Let_def cols ts
    by (simp add: rangeLabel_def element_def s ToString_Num toString_0 toString_10)
  show ?thesis
    unfolding fromColorMap_def cm
    by (simp add: getEditableThreshold_def label_tokens)
qed

theorem colorMap_round_trip_witness:
  "colorMap (customPalette (colorPaletteUI (props (fst (setColorThresholds 1 (Str ''4'')
      (paletteComponent
         (paletteProps [''#a'', ''#b'', ''#c'', ''#d'', ''#e''] None
            (Some [Num (Fin 0), Num (Fin 10)]) (Fin 5))
         [Num (Fin 2), Num (Fin 4), Num (Fin 6), Num (Fin 8)])))))) =
       Some [Some [Str ''0 to 2'', Str ''#a''], Some [Str ''2 to 4'', Str ''#b''],
             Some [Str ''4 to 6'', Str ''#c''], Some [Str ''6 to 8'', Str ''#d''],
             Some [Str ''8 to 10'', Str ''#e'']]
   \<and> fromColorMap (props (fst (setColorThresholds 1 (Str ''4'')
      (paletteComponent
         (paletteProps [''#a'', ''#b'', ''#c'', ''#d'', ''#e''] None
            (Some [Num (Fin 0), Num (Fin 10)]) (Fin 5))
         [Num (Fin 2), Num (Fin 4), Num (Fin 6), Num (Fin 8)]))))
     = Inr [Str ''2'', Str ''4'', Str ''6'', Str ''8'']"
proof -
  let ?c = "paletteComponent
         (paletteProps [''#a'', ''#b'', ''#c'', ''#d'', ''#e''] None
            (Some [Num (Fin 0), Num (Fin 10)]) (Fin 5))
         [Num (Fin 2), Num (Fin 4), Num (Fin 6), Num (Fin 8)]"
  have dom: "colorDomain (props ?c) = Some [Num (Fin 0), Num (Fin 10)]"
    by (simp add: paletteComponent_def paletteProps_def)
  have cols: "colors (customPalette (colorPaletteUI (props ?c)))
      = [''#a'', ''#b'', ''#c'', ''#d'', ''#e'']"
    by (simp add: paletteComponent_def paletteProps_def)
  have ths: "map ToString (assign_at (colorThresholds ?c) 1 (Str ''4''))
      = [''2'', ''4'', ''6'', ''8'']"
    by code_simp
  show ?thesis
    by (rule colorMap_round_trip [OF dom cols ths])
qed

section \<open>The conversions on known values\<close>

lemma number_toString_examples:
  "number_toString (to_double (1 / 10)) = ''0.1''"
  "number_toString (Fin (- (5 / 2))) = ''-2.5''"
  "number_toString (to_double (10 ^ 21)) = ''1e+21''"
  "number_toString (to_double (15 / 10 ^ 8)) = ''1.5e-7''"
  "number_toString (to_double (1 / 10 ^ 6)) = ''0.000001''"
  by code_simp+

lemma toFixed_examples:
  "toFixed (to_double (1005 / 1000)) 2 = Inr ''1.00''"
  "toFixed (Fin (5 / 2)) 0 = Inr ''3''"
  "toFixed (Fin (- (5 / 2))) 0 = Inr ''-3''"
  "toFixed (Fin (1 / 1000)) 2 = Inr ''0.00''"
  "toFixed (to_double (10 ^ 21)) 2 = Inr ''1e+21''"
  "toFixed NaN 2 = Inr ''NaN''"
  "toFixed (Fin 1) 101 = Inl RangeError"
  by code_simp+

lemma parse_examples:
  "parseInt ''0x1f'' = Fin 31"
  "parseInt ''  -12px'' = Fin (- 12)"
  "parseInt [] = NaN"
  "parseInt ''1e+21'' = Fin 1"
  "parseInt ''Infinity'' = NaN"
  "parseFloat ''1e+21'' = Fin (10 ^ 21)"
  "parseFloat ''.5'' = Fin (1 / 2)"
  "parseFloat ''-Infinity'' = NegInf"
  "parseFloat ''abc'' = NaN"
  by code_simp+

section \<open>Numbers read from strings\<close>

lemma round_half_even_of_int: "round_half_even (of_int n) = n"
  by (simp add: round_half_even_def)

lemma ipow_nonneg_int: "0 \<le> e \<Longrightarrow> ipow 2 e = of_int (2 ^ nat e)"
  by (simp add: ipow_def)

lemma scaled_int:
  assumes "e < 0"
  shows "of_int n / ipow 2 e = of_int (n * 2 ^ nat (- e))"
  using assms by (simp add: ipow_def)

lemma rounded_int_is_int:
  "\<exists>k. of_int (round_half_even (of_int n / ipow 2 e)) * ipow 2 e = (of_int k :: rat)"
proof (cases "0 \<le> e")
  case True
  have "of_int (round_half_even (of_int n / ipow 2 e)) * ipow 2 e
      = (of_int (round_half_even (of_int n / ipow 2 e) * 2 ^ nat e) :: rat)"
    by (simp add: ipow_nonneg_int [OF True])
  then show ?thesis by blast
next
  case False
  then have neg: "e < 0" by simp
  have "of_int (round_half_even (of_int n / ipow 2 e)) * ipow 2 e = (of_int n :: rat)"
    unfolding scaled_int [OF neg] round_half_even_of_int
    using neg by (simp add: ipow_def)
  then show ?thesis by blast
qed

lemma to_double_of_int:
  assumes "to_double (of_int z) = Fin q"
  shows "\<exists>k. q = of_int k"
proof -
  define e where "e = max (floor_log 2 \<bar>of_int z :: rat\<bar>) (- 1022)"
  define m where "m = round_half_even (\<bar>of_int z :: rat\<bar> / ipow 2 (e - 52))"
  have "\<bar>of_int z :: rat\<bar> = of_int \<bar>z\<bar>"
    by simp
  then obtain k where k: "of_int m * ipow 2 (e - 52) = (of_int k :: rat)"
    unfolding m_def using rounded_int_is_int by metis
  have "to_double (of_int z) =
      (if (of_int z :: rat) = 0 then Fin 0
       else if 1024 \<le> e \<or> (e = 1023 \<and> 9007199254740992 \<le> m)
         then (if (of_int z :: rat) < 0 then NegInf else PosInf)
         else Fin (if (of_int z :: rat) < 0 then - (of_int m * ipow 2 (e - 52))
                   else of_int m * ipow 2 (e - 52)))"
    unfolding to_double_def Let_def e_def m_def by (rule refl)
  with assms have "q = 0 \<or> q = - of_int k \<or> q = of_int k"
    unfolding k by (auto split: if_splits)
  then show ?thesis
    by (metis of_int_0 of_int_minus)
qed

lemma if_NaN_shape:
  "(if c then NaN else to_double (of_int t)) = NaN
   \<or> (\<exists>z. (if c then NaN else to_double (of_int t)) = to_double (of_int z))"
  by (cases c) auto

lemma parseInt_shape: "parseInt s = NaN \<or> (\<exists>z. parseInt s = to_double (of_int z))"
  unfolding parseInt_def Let_def by (rule if_NaN_shape)

lemma parseInt_result:
  "parseInt s = NaN \<or> parseInt s = PosInf \<or> parseInt s = NegInf
   \<or> (\<exists>k. parseInt s = Fin (of_int k))"
proof (cases "parseInt s")
  case (Fin q)
  then obtain z where "to_double (of_int z) = Fin q"
    using parseInt_shape [of s] by auto
  then show ?thesis using to_double_of_int Fin by blast
qed simp_all

lemma getDecimalPlaces_not_finite:
  "getDecimalPlaces NaN = Inl TypeError" "getDecimalPlaces PosInf = Inl TypeError"
  "getDecimalPlaces NegInf = Inl TypeError"
  by (simp_all add: getDecimalPlaces_def isInteger_def number_toString_def js_split_def)

lemma getDecimalPlaces_int: "getDecimalPlaces (Fin (of_int k)) = Inr 0"
  by (simp add: getDecimalPlaces_def isInteger_def)

lemma getDecimalPlaces_parseInt:
  "getDecimalPlaces (parseInt s) = (case parseInt s of Fin _ \<Rightarrow> Inr 0 | _ \<Rightarrow> Inl TypeError)"
  using parseInt_result [of s]
  by (auto simp: getDecimalPlaces_not_finite getDecimalPlaces_int)

lemma getDecimalPlaces_error: "getDecimalPlaces x = Inl e \<Longrightarrow> e = TypeError"
  by (auto simp: getDecimalPlaces_def split: if_splits list.splits)

lemma takeWhile_stop: "\<not> P c \<Longrightarrow> takeWhile P (xs @ c # ys) = takeWhile P xs"
  by (induction xs) auto

lemma dropWhile_stop: "\<not> P c \<Longrightarrow> dropWhile P (xs @ c # ys) = dropWhile P xs @ c # ys"
  by (induction xs) auto

lemma dot_is_no_digit: "\<not> radix_digit R CHR ''.''" "\<not> is_ws CHR ''.''"
  by (simp_all add: radix_digit_def is_digit_def is_ws_def)

lemma parseInt_drops_fraction: "parseInt (s @ CHR ''.'' # f) = parseInt s"
proof -
  define t where "t = dropWhile is_ws s"
  have s0: "dropWhile is_ws (s @ CHR ''.'' # f) = t @ CHR ''.'' # f"
    by (simp add: t_def dropWhile_stop dot_is_no_digit)
  show ?thesis
  proof (cases t)
    case Nil
    then show ?thesis
      unfolding parseInt_def s0 t_def [symmetric]
      by (simp add: Let_def dot_is_no_digit)
  next
    case (Cons c r)
    show ?thesis
    proof (cases "c = CHR ''+'' \<or> c = CHR ''-''")
      case True
      then show ?thesis
        unfolding parseInt_def s0 t_def [symmetric] Cons
        by (cases r; cases "tl r")
          (auto simp: Let_def dot_is_no_digit takeWhile_stop)
    next
      case False
      then show ?thesis
        unfolding parseInt_def s0 t_def [symmetric] Cons
        by (cases r)
          (auto simp: Let_def dot_is_no_digit takeWhile_stop)
    qed
  qed
qed

section \<open>Thresholds from the domain\<close>

lemma element_Cons_0: "element (x # xs) 0 = x"
  by (simp add: element_def)

lemma domainBound_Str: "element d i = Str s \<Longrightarrow> domainBound d i = Some (parseInt s)"
  by (simp add: domainBound_def)

lemma init_present:
  "colorDomain p = Some d \<Longrightarrow>
   init p =
     (case domainBound d 0 of
        None \<Rightarrow> Inl TypeError
      | Some min' \<Rightarrow>
          (case domainBound d 1 of
             None \<Rightarrow> Inl TypeError
           | Some max' \<Rightarrow>
               (case getDecimalPlaces min' of
                  Inl e \<Rightarrow> Inl e
                | Inr dmin \<Rightarrow>
                    (case getDecimalPlaces max' of
                       Inl e \<Rightarrow> Inl e
                     | Inr dmax \<Rightarrow>
                         (case roundDown (max dmin dmax)
                                 (js_div (js_sub max' min')
                                    (steps (colorRangeConfig (colorPaletteUI p)))) of
                            Inl e \<Rightarrow> Inl e
                          | Inr increment \<Rightarrow>
                              (case arrayLength (steps (colorRangeConfig (colorPaletteUI p))) of
                                 Inl e \<Rightarrow> Inl e
                               | Inr n \<Rightarrow>
                                   collect
                                     (map (thresholdAt (max dmin dmax) min' max' increment n)
                                        [0..<n])))))))"
  unfolding init_def Let_def by simp

lemma init_min_raises:
  assumes "colorDomain p = Some d" and "domainBound d 0 = Some NaN"
  shows "init p = Inl TypeError"
  unfolding init_present [OF assms(1)] assms(2)
  by (simp add: getDecimalPlaces_not_finite split: option.splits)

lemma init_max_raises:
  assumes "colorDomain p = Some d" and "domainBound d 1 = Some NaN"
  shows "init p = Inl TypeError"
proof (cases "domainBound d 0")
  case None
  then show ?thesis
    unfolding init_present [OF assms(1)] by simp
next
  case (Some mn)
  show ?thesis
  proof (cases "getDecimalPlaces mn")
    case (Inl e)
    then have "e = TypeError" by (rule getDecimalPlaces_error)
    with Inl Some show ?thesis
      unfolding init_present [OF assms(1)] assms(2) by simp
  next
    case (Inr dmin)
    with Some show ?thesis
      unfolding init_present [OF assms(1)] assms(2)
      by (simp add: getDecimalPlaces_not_finite)
  qed
qed

text \<open>
  C1 does not hold of the code. A string bound that \<open>parseInt\<close> cannot read becomes NaN;
  \<open>getDecimalPlaces\<close> then splits the text \<open>NaN\<close> at the decimal point, finds no second
  piece and reads its length: \<open>init\<close> raises a TypeError whenever the first or the second
  bound of the domain is such a string.
\<close>

theorem init_non_numeric_string_raises:
  assumes "colorDomain p = Some d"
    and "(\<exists>s. element d 0 = Str s \<and> parseInt s = NaN)
       \<or> (\<exists>s. element d 1 = Str s \<and> parseInt s = NaN)"
  shows "init p = Inl TypeError"
  using assms(2)
proof
  assume "\<exists>s. element d 0 = Str s \<and> parseInt s = NaN"
  then have "domainBound d 0 = Some NaN"
    by (auto simp: domainBound_Str)
  with assms(1) show ?thesis by (rule init_min_raises)
next
  assume "\<exists>s. element d 1 = Str s \<and> parseInt s = NaN"
  then have "domainBound d 1 = Some NaN"
    by (auto simp: domainBound_Str)
  with assms(1) show ?thesis by (rule init_max_raises)
qed

theorem init_non_numeric_string_raises_witness:
  "init (paletteProps [''#a'', ''#b'', ''#c'', ''#d'', ''#e''] None
           (Some [Str ''abc'', Str ''10'']) (Fin 5)) = Inl TypeError"
proof -
  let ?p = "paletteProps [''#a'', ''#b'', ''#c'', ''#d'', ''#e''] None
     (Some [Str ''abc'', Str ''10'']) (Fin 5)"
  have d: "colorDomain ?p = Some [Str ''abc'', Str ''10'']"
    by (simp add: paletteProps_def)
  have "parseInt ''abc'' = NaN"
    by code_simp
  then have "(\<exists>s. element [Str ''abc'', Str ''10''] 0 = Str s \<and> parseInt s = NaN)
      \<or> (\<exists>s. element [Str ''abc'', Str ''10''] 1 = Str s \<and> parseInt s = NaN)"
    by (simp add: element_Cons_0)
  with d show ?thesis by (rule init_non_numeric_string_raises)
qed

text \<open>
  C2 does not hold of the code. With precision 0 the helper named \<open>roundDown\<close> takes
  \<open>parseInt\<close> of \<open>toFixed()\<close>, and \<open>toFixed\<close> has already rounded to the nearest integer:
  for the domain \<open>[0, 7]\<close> and 4 steps the quotient 1.75 gives the increment 2, where
  truncation gives 1, and the thresholds are 2, 4, 6, 7.
\<close>

theorem roundDown_rounds_to_nearest:
  "js_div (js_sub (Fin 7) (Fin 0)) (Fin 4) = Fin (7 / 4)
   \<and> roundDown 0 (Fin (7 / 4)) = Inr (Fin 2)
   \<and> \<lfloor>7 / 4 :: rat\<rfloor> = 1
   \<and> init (paletteProps [''#a'', ''#b'', ''#c'', ''#d''] None
             (Some [Num (Fin 0), Num (Fin 7)]) (Fin 4))
       = Inr [Num (Fin 2), Num (Fin 4), Num (Fin 6), Num (Fin 7)]"
  by code_simp

text \<open>
  Rounding the increment up lets a threshold pass the upper bound, which rounding down
  cannot: the domain \<open>[0, 3]\<close> with 5 steps gives the increment 1 for the quotient 0.6 and
  the thresholds 1, 2, 3, 4, 3.
\<close>

lemma init_overshoots_domain:
  "init (paletteProps [''#a'', ''#b'', ''#c'', ''#d'', ''#e''] None
           (Some [Num (Fin 0), Num (Fin 3)]) (Fin 5))
     = Inr [Num (Fin 1), Num (Fin 2), Num (Fin 3), Num (Fin 4), Num (Fin 3)]"
  by code_simp

text \<open>
  C3 does not hold of the code for every numeric domain. A bound below \<open>10^-6\<close> with one
  significant digit prints in exponent notation without a decimal point (\<open>1e-7\<close>), so
  \<open>getDecimalPlaces\<close> finds no second piece and \<open>init\<close> raises a TypeError for the domain
  \<open>[1e-7, 1]\<close>. The binary64 value of \<open>1e-7\<close> is written out.
\<close>

theorem init_small_bound_raises:
  "to_double (1 / 10 ^ 7) = Fin (944473296573929 / 9444732965739290427392)
   \<and> number_toString (Fin (944473296573929 / 9444732965739290427392)) = ''1e-7''
   \<and> init (paletteProps [''#a'', ''#b'', ''#c'', ''#d'', ''#e''] None
             (Some [Num (Fin (944473296573929 / 9444732965739290427392)), Num (Fin 1)]) (Fin 5))
       = Inl TypeError"
  by code_simp

text \<open>The two examples of C3 do hold.\<close>

lemma init_domain_0_10_steps_5:
  "init (paletteProps [''#a'', ''#b'', ''#c'', ''#d'', ''#e''] None
           (Some [Num (Fin 0), Num (Fin 10)]) (Fin 5))
     = Inr [Num (Fin 2), Num (Fin 4), Num (Fin 6), Num (Fin 8), Num (Fin 10)]"
  by code_simp

lemma init_domain_0_10_25_steps_4:
  "init (paletteProps [''#a'', ''#b'', ''#c'', ''#d''] None
           (Some [Num (Fin 0), Num (Fin (1025 / 100))]) (Fin 4))
     = Inr [Num (parseFloat ''2.56''), Num (parseFloat ''5.12''), Num (parseFloat ''7.68''),
            Num (Fin (1025 / 100))]"
  by code_simp

text \<open>
  C10. A string bound is read by \<open>parseInt\<close>: \<open>"10.25"\<close> becomes 10, for every string
  whatever follows a decimal point is discarded, \<open>init\<close> on a domain of two strings is
  \<open>init\<close> on the domain of their \<open>parseInt\<close> values, and the number of decimal places
  inferred from such a value is 0 whenever it is finite. So the domain
  \<open>["0", "10.25"]\<close> with 4 steps gives the integer thresholds 3, 6, 9, 10.
\<close>

theorem init_parses_strings_as_integers:
  "parseInt ''10.25'' = Fin 10
   \<and> parseInt (s @ CHR ''.'' # f) = parseInt s
   \<and> init (p\<lparr>colorDomain := Some (Str a # Str b # rest)\<rparr>)
       = init (p\<lparr>colorDomain := Some (Num (parseInt a) # Num (parseInt b) # rest)\<rparr>)
   \<and> getDecimalPlaces (parseInt a)
       = (case parseInt a of Fin _ \<Rightarrow> Inr 0 | _ \<Rightarrow> Inl TypeError)
   \<and> init (paletteProps [''#a'', ''#b'', ''#c'', ''#d''] None
             (Some [Str ''0'', Str ''10.25'']) (Fin 4))
       = Inr [Num (Fin 3), Num (Fin 6), Num (Fin 9), Num (Fin 10)]"
proof -
  have ex: "parseInt ''10.25'' = Fin 10"
    by code_simp
  have same: "init (p\<lparr>colorDomain := Some (Str a # Str b # rest)\<rparr>)
       = init (p\<lparr>colorDomain := Some (Num (parseInt a) # Num (parseInt b) # rest)\<rparr>)"
    by (simp add: init_def domainBound_def element_def)
  have run: "init (paletteProps [''#a'', ''#b'', ''#c'', ''#d''] None
             (Some [Str ''0'', Str ''10.25'']) (Fin 4))
       = Inr [Num (Fin 3), Num (Fin 6), Num (Fin 9), Num (Fin 10)]"
    by code_simp
  show ?thesis
    using ex same run parseInt_drops_fraction [of s f] getDecimalPlaces_parseInt [of a]
    by blast
qed

lemma roundDown_defined: "decimals \<le> 100 \<Longrightarrow> \<exists>r. roundDown decimals x = Inr r"
  by (simp add: roundDown_def toFixed_def)

lemma collect_map:
  assumes "\<forall>x \<in> set xs. f x = Inr (g x)"
  shows "collect (map f xs) = Inr (map g xs)"
  using assms by (induction xs) simp_all

lemma thresholdAt_defined:
  assumes "decimals \<le> 100"
  shows "\<exists>v. thresholdAt decimals mn mx inc n i = Inr v"
proof -
  obtain r where "roundDown decimals (js_add mn (js_mul inc (Fin (of_nat (i + 1))))) = Inr r"
    using roundDown_defined [OF assms] by blast
  then show ?thesis by (simp add: thresholdAt_def)
qed

text \<open>
  What does hold of \<open>init\<close> on a numeric domain: when both bounds print in a form
  \<open>getDecimalPlaces\<close> can read and the step count is an array length, the result has one
  value per step, the last one is the upper bound itself and every other one is
  \<open>min + increment * (i + 1)\<close> rounded by \<open>roundDown\<close> at the inferred precision.
\<close>

lemma init_values:
  assumes dom: "colorDomain p = Some d"
    and mn: "domainBound d 0 = Some mn" and mx: "domainBound d 1 = Some mx"
    and a: "getDecimalPlaces mn = Inr a" and b: "getDecimalPlaces mx = Inr b"
    and small: "max a b \<le> 100"
    and n: "arrayLength (steps (colorRangeConfig (colorPaletteUI p))) = Inr n"
  shows "\<exists>inc ts.
       roundDown (max a b) (js_div (js_sub mx mn) (steps (colorRangeConfig (colorPaletteUI p))))
         = Inr inc
     \<and> init p = Inr ts \<and> length ts = n
     \<and> (\<forall>i < n. thresholdAt (max a b) mn mx inc n i = Inr (ts ! i))
     \<and> (0 < n \<longrightarrow> ts ! (n - 1) = Num mx)"
proof -
  obtain inc where inc:
    "roundDown (max a b) (js_div (js_sub mx mn) (steps (colorRangeConfig (colorPaletteUI p))))
       = Inr inc"
    using roundDown_defined [OF small] by blast
  define g where "g i = (SOME v. thresholdAt (max a b) mn mx inc n i = Inr v)" for i
  have g: "thresholdAt (max a b) mn mx inc n i = Inr (g i)" for i
    unfolding g_def using thresholdAt_defined [OF small] by (metis (mono_tags, lifting) someI_ex)
  have "collect (map (thresholdAt (max a b) mn mx inc n) [0..<n]) = Inr (map g [0..<n])"
    by (rule collect_map) (simp add: g)
  then have run: "init p = Inr (map g [0..<n])"
    using mx by (simp add: init_present [OF dom] mn a b inc n)
  have last: "0 < n \<longrightarrow> map g [0..<n] ! (n - 1) = Num mx"
  proof
    assume "0 < n"
    then have "Suc (n - 1) = n" by simp
    then have "thresholdAt (max a b) mn mx inc n (n - 1) = Inr (Num mx)"
      by (simp add: thresholdAt_def)
    with g [of "n - 1"] have "g (n - 1) = Num mx" by simp
    with \<open>0 < n\<close> show "map g [0..<n] ! (n - 1) = Num mx" by simp
  qed
  show ?thesis
    using inc run last g by auto
qed

end
